theory Spec2Isabelle
  imports Main "HOL-Library.Sublist"
begin

section \<open>Data model of server.js\<close>

text \<open>
  Values that arrive in the JSON request body. Only the two shapes that the handlers
  distinguish are kept: \<open>JNull\<close> stands for \<open>null\<close> or a missing field
  (\<open>undefined\<close>), \<open>JStr\<close> for a string. A phone number is posted as a string.
\<close>

datatype jsval = JNull | JStr string

text \<open>
  The \<open>message\<close> property of the JavaScript errors that the handlers read. The literals of
  server.js are Arabic text; each one is a constructor of its own here, named after its meaning:
  \<^item> \<open>ClientNotInitialized\<close>: the literal of lines 280 and 349;
  \<^item> \<open>InvalidNumberList\<close>: the literal of lines 284 and 353 (a valid list of numbers is required);
  \<^item> \<open>NotRegistered\<close>: lines 296 and 366 (number not registered on WhatsApp);
  \<^item> \<open>MediaNotFound\<close>: lines 301 and 381 (media file does not exist);
  \<^item> \<open>UnsupportedType\<close>: lines 306 and 386 (file type not supported);
  \<^item> \<open>TooLarge\<close>: lines 311 and 391 (file too large, the maximum is 16 megabytes);
  \<^item> \<open>MediaSendFailed m\<close>: the template of line 409, a fixed prefix followed by \<open>m\<close>;
  \<^item> \<open>RequestFailed m\<close>: the concatenation of lines 339 and 427, a fixed prefix followed by \<open>m\<close>;
  \<^item> \<open>NotDefined x\<close>: the ReferenceError of the runtime, "x is not defined";
  \<^item> \<open>CannotRead p\<close>: the TypeError of the runtime for reading property \<open>p\<close> of
    \<open>null\<close> or \<open>undefined\<close>;
  \<^item> \<open>InvalidPathArg\<close>: the TypeError of \<open>path.join\<close> for an argument that is not a string;
  \<^item> \<open>External s\<close>: the message of an error raised by a collaborator (the WhatsApp client,
    the file system).
  Whatever is thrown is taken to be an \<open>Error\<close> object, so that reading \<open>error.message\<close>
  in a catch block succeeds.
\<close>

datatype msg =
    ClientNotInitialized
  | InvalidNumberList
  | NotRegistered
  | MediaNotFound
  | UnsupportedType
  | TooLarge
  | MediaSendFailed msg
  | RequestFailed msg
  | NotDefined string
  | CannotRead string
  | InvalidPathArg
  | External string

section \<open>formatPhoneNumber (lines 252-272)\<close>

text \<open>\<open>/\D/g\<close> without the unicode flag removes every character outside \<open>0\<close>..\<open>9\<close>.\<close>

definition isDigit :: "char \<Rightarrow> bool" where
  "isDigit c = (c \<in> set ''0123456789'')"

definition startsWith :: "string \<Rightarrow> string \<Rightarrow> bool" where
  "startsWith s p = (take (length p) s = p)"

text \<open>\<open>number.toString()\<close>: a TypeError on \<open>null\<close> and \<open>undefined\<close>.\<close>

definition toString :: "jsval \<Rightarrow> msg + string" where
  "toString v = (case v of JNull \<Rightarrow> Inl (CannotRead ''toString'') | JStr s \<Rightarrow> Inr s)"

definition formatPhoneNumber :: "jsval \<Rightarrow> jsval \<Rightarrow> msg + string" where
  "formatPhoneNumber number countryCode =
     (case toString number of
        Inl e \<Rightarrow> Inl e
      | Inr str \<Rightarrow>
          (let phone = filter isDigit str in
           Inr (if countryCode = JStr ''SA'' then
                  (let phone1 = (if startsWith phone ''0'' then drop 1 phone else phone) in
                   if \<not> startsWith phone1 ''966'' then ''966'' @ phone1 else phone1)
                else if countryCode = JStr ''20'' then
                  (if \<not> startsWith phone ''20'' then ''20'' @ phone else phone)
                else phone)))"

subsection \<open>The normalizer as section 4.2 of the specification words it\<close>

fun drop_leading_zero :: "string \<Rightarrow> string" where
  "drop_leading_zero [] = []"
| "drop_leading_zero (c # cs) = (if c = CHR ''0'' then cs else c # cs)"

definition prepend_unless_present :: "string \<Rightarrow> string \<Rightarrow> string" where
  "prepend_unless_present code ds = (if prefix code ds then ds else code @ ds)"

definition normalize_spec :: "string \<Rightarrow> string \<Rightarrow> string" where
  "normalize_spec rawNumber countryHint =
     (let ds = [c \<leftarrow> rawNumber. isDigit c]
      in if countryHint = ''SA'' then prepend_unless_present ''966'' (drop_leading_zero ds)
         else if countryHint = ''20'' then prepend_unless_present ''20'' ds
         else ds)"

section \<open>Collaborators and their calls\<close>

text \<open>
  \<open>new MessageMedia(mimetype, data, filename)\<close> and the options object passed with it.
\<close>

record media =
  mimetype :: string
  data :: string
  filename :: string

record send_options =
  sendMediaAsDocument :: bool
  caption :: jsval

datatype payload = Text string | Media media send_options

text \<open>
  Every call that leaves the process is written to a trace, in the order the handler
  makes it: the calls on the WhatsApp client, the file-system calls, and the timer waits.
  \<open>mime.lookup\<close>, \<open>path.join\<close> and \<open>path.basename\<close> only compute on strings and
  leave no event.
\<close>

datatype event =
    EvIsRegisteredUser string
  | EvSendMessage string payload
  | EvDelay nat
  | EvExistsSync string
  | EvStatSync string
  | EvReadFileSync string
  | EvRmSync string
  | EvDestroy nat
  | EvInitialize nat

text \<open>
  The collaborators are parameters of the model. Each answer may depend on everything that
  happened before the call (the trace so far), so a client or a file system with a state
  of its own is covered. \<open>Inl m\<close> is a thrown error (or a rejected promise) with message
  \<open>m\<close>. \<open>path_join_cwd p\<close> is \<open>path.join(process.cwd(), p)\<close>; \<open>fs_statSync_size\<close> is the
  \<open>size\<close> field of \<open>fs.statSync\<close>; \<open>mime_lookup\<close> returns \<open>None\<close> where the library
  returns \<open>false\<close>; \<open>client_initialize\<close> is the synchronous part of
  \<open>client.initialize()\<close>.
\<close>

record env =
  client_isRegisteredUser :: "event list \<Rightarrow> string \<Rightarrow> msg + bool"
  client_sendMessage :: "event list \<Rightarrow> string \<Rightarrow> payload \<Rightarrow> msg + unit"
  client_destroy :: "event list \<Rightarrow> nat \<Rightarrow> msg + unit"
  client_initialize :: "event list \<Rightarrow> nat \<Rightarrow> msg + unit"
  fs_existsSync :: "event list \<Rightarrow> string \<Rightarrow> bool"
  fs_statSync_size :: "event list \<Rightarrow> string \<Rightarrow> msg + nat"
  fs_readFileSync :: "event list \<Rightarrow> string \<Rightarrow> msg + string"
  fs_rmSync :: "event list \<Rightarrow> string \<Rightarrow> msg + unit"
  mime_lookup :: "string \<Rightarrow> string option"
  path_join_cwd :: "string \<Rightarrow> string"
  path_basename :: "string \<Rightarrow> string"

text \<open>
  A step of a handler either throws or returns a value, and extends the trace.
  \<open>andThen\<close> is the sequencing of statements inside one \<open>try\<close> block: the first throw
  ends the block.
\<close>

type_synonym 'a outcome = "(msg + 'a) \<times> event list"

definition andThen :: "'a outcome \<Rightarrow> ('a \<Rightarrow> event list \<Rightarrow> 'b outcome) \<Rightarrow> 'b outcome" where
  "andThen r k = (case r of (Inl e, tr) \<Rightarrow> (Inl e, tr) | (Inr x, tr) \<Rightarrow> k x tr)"

section \<open>Session state (lines 110-112) and teardown (lines 115-147)\<close>

text \<open>
  The three module variables. \<open>client\<close> holds the identity of the Client object, if any.
\<close>

record session =
  connectionStatus :: string
  client :: "nat option"
  qrCodeData :: "string option"

definition foldersToDelete :: "env \<Rightarrow> string list" where
  "foldersToDelete env =
     [path_join_cwd env ''uploads'', path_join_cwd env ''.wwebjs_auth'',
      path_join_cwd env ''.wwebjs_cache'']"

text \<open>The loop of lines 122-131: an error of \<open>rmSync\<close> is logged and the loop goes on.\<close>

fun clear_loop :: "env \<Rightarrow> string list \<Rightarrow> event list \<Rightarrow> event list" where
  "clear_loop env [] tr = tr"
| "clear_loop env (folder # rest) tr =
     (if fs_existsSync env tr folder then
        (case fs_rmSync env (tr @ [EvExistsSync folder]) folder of
           Inr u \<Rightarrow> clear_loop env rest (tr @ [EvExistsSync folder, EvRmSync folder])
         | Inl error \<Rightarrow> clear_loop env rest (tr @ [EvExistsSync folder, EvRmSync folder]))
      else clear_loop env rest (tr @ [EvExistsSync folder]))"

definition clearWhatsAppFolders :: "env \<Rightarrow> event list \<Rightarrow> event list" where
  "clearWhatsAppFolders env tr = clear_loop env (foldersToDelete env) tr"

text \<open>
  destroyClient: the assignment \<open>client = null\<close> of line 139 stands inside the \<open>try\<close>,
  after the awaited call, so it runs only when \<open>client.destroy()\<close> did not throw.
\<close>

definition destroyClient :: "env \<Rightarrow> session \<Rightarrow> event list \<Rightarrow> session \<times> event list" where
  "destroyClient env s tr =
     (let s1 = s\<lparr>connectionStatus := ''disconnecting''\<rparr>;
          (s2, tr2) =
            (case client s1 of
               None \<Rightarrow> (s1, tr)
             | Some h \<Rightarrow>
                 (case client_destroy env tr h of
                    Inr u \<Rightarrow> (s1\<lparr>client := None\<rparr>, tr @ [EvDestroy h])
                  | Inl error \<Rightarrow> (s1, tr @ [EvDestroy h])));
          s3 = s2\<lparr>connectionStatus := ''disconnected'', qrCodeData := None\<rparr>
      in (s3, clearWhatsAppFolders env tr2))"

text \<open>
  initializeWhatsApp (lines 149-214), up to the return of the function: \<open>h\<close> is the
  identity of the Client object that \<open>new Client\<close> creates. The events that the client
  delivers later, and the rejection of the promise of \<open>client.initialize()\<close>, are not part
  of this call.
\<close>

definition initializeWhatsApp :: "env \<Rightarrow> nat \<Rightarrow> session \<Rightarrow> event list \<Rightarrow> session \<times> event list" where
  "initializeWhatsApp env h s tr =
     (let s1 = s\<lparr>connectionStatus := ''initializing'', client := Some h\<rparr> in
      case client_initialize env tr h of
        Inr u \<Rightarrow> (s1, tr @ [EvInitialize h])
      | Inl error \<Rightarrow>
          (s1\<lparr>connectionStatus := ''disconnected''\<rparr>,
           clearWhatsAppFolders env (tr @ [EvInitialize h])))"

section \<open>Steps shared by the two send handlers\<close>

text \<open>Lines 294-297 and 364-367.\<close>

definition check_registered :: "env \<Rightarrow> string \<Rightarrow> event list \<Rightarrow> unit outcome" where
  "check_registered env chatId tr =
     ((case client_isRegisteredUser env tr chatId of
         Inl e \<Rightarrow> Inl e
       | Inr isRegistered \<Rightarrow> if \<not> isRegistered then Inl NotRegistered else Inr ()),
      tr @ [EvIsRegisteredUser chatId])"

definition join_cwd :: "env \<Rightarrow> jsval \<Rightarrow> msg + string" where
  "join_cwd env mediaPath =
     (case mediaPath of JNull \<Rightarrow> Inl InvalidPathArg | JStr p \<Rightarrow> Inr (path_join_cwd env p))"

text \<open>
  Lines 299-319 and, statement for statement, lines 378-399: from \<open>path.join\<close> to the
  construction of the MessageMedia. The result is the pair of the local \<open>mimeType\<close> and
  the media object. \<open>!mimeType\<close> holds for \<open>false\<close> and for the empty string.
\<close>

definition resolveMedia :: "env \<Rightarrow> jsval \<Rightarrow> event list \<Rightarrow> (string \<times> media) outcome" where
  "resolveMedia env mediaPath tr =
     andThen (join_cwd env mediaPath, tr) (\<lambda>fullPath tr.
     andThen (if \<not> fs_existsSync env tr fullPath then Inl MediaNotFound else Inr (),
              tr @ [EvExistsSync fullPath]) (\<lambda>_ tr.
     andThen (case mime_lookup env fullPath of
                None \<Rightarrow> Inl UnsupportedType
              | Some mimeType \<Rightarrow> if mimeType = [] then Inl UnsupportedType else Inr mimeType,
              tr) (\<lambda>mimeType tr.
     andThen (case fs_statSync_size env tr fullPath of
                Inl e \<Rightarrow> Inl e
              | Inr fileSize \<Rightarrow> if fileSize > 16 * 1024 * 1024 then Inl TooLarge else Inr (),
              tr @ [EvStatSync fullPath]) (\<lambda>_ tr.
     andThen (fs_readFileSync env tr fullPath, tr @ [EvReadFileSync fullPath]) (\<lambda>base64Data tr.
       (Inr (mimeType,
             \<lparr>mimetype = mimeType, data = base64Data, filename = path_basename env fullPath\<rparr>),
        tr))))))"

text \<open>Lines 321-324 and 402-405.\<close>

definition send_media ::
  "env \<Rightarrow> string \<Rightarrow> string \<Rightarrow> media \<Rightarrow> jsval \<Rightarrow> event list \<Rightarrow> unit outcome" where
  "send_media env chatId mimeType media captionText tr =
     (let content = Media media
            \<lparr>sendMediaAsDocument = startsWith mimeType ''video/'', caption = captionText\<rparr>
      in (client_sendMessage env tr chatId content, tr @ [EvSendMessage chatId content]))"

text \<open>The results object of both handlers; a failed entry is the pair (number, reason).\<close>

record results =
  success :: "string list"
  failed :: "(jsval \<times> msg) list"

datatype response = Status400 msg | Status500 msg | Status200 results

section \<open>POST /send-single-media (lines 275-341)\<close>

text \<open>The body of the inner \<open>try\<close>, lines 291-326, up to the value pushed on success.\<close>

definition single_try ::
  "env \<Rightarrow> jsval \<Rightarrow> jsval \<Rightarrow> jsval \<Rightarrow> jsval \<Rightarrow> event list \<Rightarrow> string outcome" where
  "single_try env number mediaPath captionText country tr =
     andThen (formatPhoneNumber number country, tr) (\<lambda>formattedNumber tr.
     let chatId = formattedNumber @ ''@c.us'' in
     andThen (check_registered env chatId tr) (\<lambda>_ tr.
     andThen (resolveMedia env mediaPath tr) (\<lambda>(mimeType, media) tr.
     andThen (send_media env chatId mimeType media captionText tr) (\<lambda>_ tr.
       (Inr formattedNumber, tr)))))"

text \<open>
  The \<open>catch\<close> block of lines 328-333. Its object literal reads \<open>formattedNumber\<close>, which
  line 291 declares with \<open>const\<close> inside the \<open>try\<close> block: the name is not in scope in the
  \<open>catch\<close> block, nor in any enclosing scope, so evaluating it throws a ReferenceError
  before anything is pushed.
\<close>

definition single_catch :: "results \<Rightarrow> msg \<Rightarrow> msg + results" where
  "single_catch res error = Inl (NotDefined ''formattedNumber'')"

text \<open>The \<open>for\<close> loop of lines 289-334; an error thrown by the catch block leaves the loop.\<close>

fun single_loop ::
  "env \<Rightarrow> jsval \<Rightarrow> jsval \<Rightarrow> jsval \<Rightarrow> jsval list \<Rightarrow> results \<Rightarrow> event list \<Rightarrow> results outcome" where
  "single_loop env mediaPath captionText country [] res tr = (Inr res, tr)"
| "single_loop env mediaPath captionText country (number # rest) res tr =
     (case single_try env number mediaPath captionText country tr of
        (Inr formattedNumber, tr1) \<Rightarrow>
          single_loop env mediaPath captionText country rest
            (res\<lparr>success := success res @ [formattedNumber]\<rparr>) tr1
      | (Inl error, tr1) \<Rightarrow>
          (case single_catch res error of
             Inl e \<Rightarrow> (Inl e, tr1)
           | Inr res1 \<Rightarrow> single_loop env mediaPath captionText country rest res1 tr1))"

text \<open>
  The handler. \<open>numbers\<close> is \<open>None\<close> when the field is missing or is not an array. The outer
  \<open>catch\<close> of lines 338-340 answers 500.
\<close>

definition send_single_media ::
  "env \<Rightarrow> session \<Rightarrow> jsval list option \<Rightarrow> jsval \<Rightarrow> jsval \<Rightarrow> jsval \<Rightarrow> event list
     \<Rightarrow> response \<times> event list" where
  "send_single_media env s numbers mediaPath captionText country tr =
     (if client s = None then (Status400 ClientNotInitialized, tr)
      else case numbers of
        None \<Rightarrow> (Status400 InvalidNumberList, tr)
      | Some ns \<Rightarrow>
          if length ns = 0 then (Status400 InvalidNumberList, tr)
          else (case single_loop env mediaPath captionText country ns
                       \<lparr>success = [], failed = []\<rparr> tr of
                  (Inr res, tr1) \<Rightarrow> (Status200 res, tr1)
                | (Inl error, tr1) \<Rightarrow> (Status500 (RequestFailed error), tr1)))"

section \<open>POST /send-bulk-messages (lines 344-429)\<close>

text \<open>Lines 369-372: the text is sent when \<open>message\<close> is truthy, followed by the wait.\<close>

definition truthy :: "jsval \<Rightarrow> bool" where
  "truthy v = (case v of JNull \<Rightarrow> False | JStr s \<Rightarrow> s \<noteq> [])"

definition send_text :: "env \<Rightarrow> string \<Rightarrow> jsval \<Rightarrow> event list \<Rightarrow> unit outcome" where
  "send_text env chatId message tr =
     (case message of
        JNull \<Rightarrow> (Inr (), tr)
      | JStr str \<Rightarrow>
          if truthy message then
            andThen (client_sendMessage env tr chatId (Text str),
                     tr @ [EvSendMessage chatId (Text str)]) (\<lambda>_ tr.
              (Inr (), tr @ [EvDelay 1000]))
          else (Inr (), tr))"

text \<open>
  One round of the inner loop; a media file is the pair of its \<open>path\<close> and its
  \<open>caption\<close>. \<open>bulk_media_try\<close> is the body of the inner \<open>try\<close>, lines 378-405, and
  \<open>bulk_media_item\<close> adds the \<open>catch\<close> of lines 407-410: whatever was thrown is thrown
  again with the prefix of line 409.
\<close>

definition bulk_media_try ::
  "env \<Rightarrow> string \<Rightarrow> jsval \<times> jsval \<Rightarrow> event list \<Rightarrow> unit outcome" where
  "bulk_media_try env chatId item tr =
     andThen (resolveMedia env (fst item) tr) (\<lambda>(mimeType, media) tr.
       send_media env chatId mimeType media (snd item) (tr @ [EvDelay 1000]))"

definition bulk_media_item ::
  "env \<Rightarrow> string \<Rightarrow> jsval \<times> jsval \<Rightarrow> event list \<Rightarrow> unit outcome" where
  "bulk_media_item env chatId item tr =
     (case bulk_media_try env chatId item tr of
        (Inl mediaError, tr1) \<Rightarrow> (Inl (MediaSendFailed mediaError), tr1)
      | (Inr u, tr1) \<Rightarrow> (Inr (), tr1))"

fun bulk_media :: "env \<Rightarrow> string \<Rightarrow> (jsval \<times> jsval) list \<Rightarrow> event list \<Rightarrow> unit outcome" where
  "bulk_media env chatId [] tr = (Inr (), tr)"
| "bulk_media env chatId (item # items) tr =
     (case bulk_media_item env chatId item tr of
        (Inl e, tr1) \<Rightarrow> (Inl e, tr1)
      | (Inr u, tr1) \<Rightarrow> bulk_media env chatId items tr1)"

text \<open>
  The body of the outer \<open>try\<close>, lines 361-414. It returns the value pushed on success,
  or what was thrown together with the variable \<open>formattedNumber\<close> of line 359, which
  is declared outside the \<open>try\<close>: \<open>None\<close> while it is \<open>undefined\<close>.
\<close>

definition bulk_try ::
  "env \<Rightarrow> jsval \<Rightarrow> jsval \<Rightarrow> (jsval \<times> jsval) list option \<Rightarrow> jsval \<Rightarrow> event list
     \<Rightarrow> ((string option \<times> msg) + string) \<times> event list" where
  "bulk_try env number message mediaFiles country tr =
     (case formatPhoneNumber number country of
        Inl e \<Rightarrow> (Inl (None, e), tr)
      | Inr formattedNumber \<Rightarrow>
          (let chatId = formattedNumber @ ''@c.us'' in
           case andThen (check_registered env chatId tr) (\<lambda>_ tr.
                andThen (send_text env chatId message tr) (\<lambda>_ tr.
                  (case mediaFiles of
                     None \<Rightarrow> (Inr (), tr)
                   | Some items \<Rightarrow>
                       if length items > 0 then bulk_media env chatId items tr
                       else (Inr (), tr)))) of
             (Inl e, tr1) \<Rightarrow> (Inl (Some formattedNumber, e), tr1)
           | (Inr u, tr1) \<Rightarrow> (Inr formattedNumber, tr1)))"

text \<open>\<open>formattedNumber || number\<close> of line 418: the empty string is falsy as well.\<close>

definition or_number :: "string option \<Rightarrow> jsval \<Rightarrow> jsval" where
  "or_number formattedNumber number =
     (case formattedNumber of
        None \<Rightarrow> number
      | Some f \<Rightarrow> if f = [] then number else JStr f)"

text \<open>The \<open>for\<close> loop of lines 358-422 with the \<open>catch\<close> block of lines 416-421.\<close>

fun bulk_loop ::
  "env \<Rightarrow> jsval \<Rightarrow> (jsval \<times> jsval) list option \<Rightarrow> jsval \<Rightarrow> jsval list \<Rightarrow> results
     \<Rightarrow> event list \<Rightarrow> results \<times> event list" where
  "bulk_loop env message mediaFiles country [] res tr = (res, tr)"
| "bulk_loop env message mediaFiles country (number # rest) res tr =
     (case bulk_try env number message mediaFiles country tr of
        (Inr formattedNumber, tr1) \<Rightarrow>
          bulk_loop env message mediaFiles country rest
            (res\<lparr>success := success res @ [formattedNumber]\<rparr>) tr1
      | (Inl (formattedNumber, error), tr1) \<Rightarrow>
          bulk_loop env message mediaFiles country rest
            (res\<lparr>failed := failed res @ [(or_number formattedNumber number, error)]\<rparr>) tr1)"

text \<open>
  The handler. Nothing thrown inside the loop escapes the \<open>catch\<close> of lines 416-421, so
  the outer \<open>catch\<close> of lines 426-428 is never entered from the loop.
\<close>

definition send_bulk_messages ::
  "env \<Rightarrow> session \<Rightarrow> jsval list option \<Rightarrow> jsval \<Rightarrow> (jsval \<times> jsval) list option \<Rightarrow> jsval
     \<Rightarrow> event list \<Rightarrow> response \<times> event list" where
  "send_bulk_messages env s numbers message mediaFiles country tr =
     (if client s = None then (Status400 ClientNotInitialized, tr)
      else case numbers of
        None \<Rightarrow> (Status400 InvalidNumberList, tr)
      | Some ns \<Rightarrow>
          if length ns = 0 then (Status400 InvalidNumberList, tr)
          else (case bulk_loop env message mediaFiles country ns
                       \<lparr>success = [], failed = []\<rparr> tr of
                  (res, tr1) \<Rightarrow> (Status200 res, tr1)))"

section \<open>The rule for the document flag, as a predicate on events\<close>

fun document_flag_rule :: "event \<Rightarrow> bool" where
  "document_flag_rule (EvSendMessage chatId (Media m opts)) =
     (sendMediaAsDocument opts = startsWith (mimetype m) ''video/'')"
| "document_flag_rule ev = True"

text \<open>
  \<open>appends_only P tr tr'\<close>: the trace \<open>tr'\<close> is \<open>tr\<close> followed by events that all
  satisfy \<open>P\<close>.
\<close>

definition appends_only :: "(event \<Rightarrow> bool) \<Rightarrow> event list \<Rightarrow> event list \<Rightarrow> bool" where
  "appends_only P tr tr' = (take (length tr) tr' = tr \<and> list_all P (drop (length tr) tr'))"

section \<open>Concrete collaborators and requests\<close>

text \<open>
  A server started in \<open>/app\<close> (the WORKDIR of the Dockerfile) with four uploaded files:
  a picture, a short video, a video of 20 MiB, and a file whose extension the MIME table
  does not know. \<open>uploads/missing.png\<close> does not exist. Every number is registered and
  every call on the client succeeds.
\<close>

definition basename_of :: "string \<Rightarrow> string" where
  "basename_of p = rev (takeWhile (\<lambda>c. c \<noteq> CHR ''/'') (rev p))"

definition mime_by_name :: "string \<Rightarrow> string option" where
  "mime_by_name p =
     (if p = ''/app/uploads/photo.png'' then Some ''image/png''
      else if p = ''/app/uploads/missing.png'' then Some ''image/png''
      else if p = ''/app/uploads/clip.mp4'' then Some ''video/mp4''
      else if p = ''/app/uploads/big.mp4'' then Some ''video/mp4''
      else None)"

definition env_ok :: env where
  "env_ok = \<lparr>
     client_isRegisteredUser = (\<lambda>tr chatId. Inr True),
     client_sendMessage = (\<lambda>tr chatId content. Inr ()),
     client_destroy = (\<lambda>tr h. Inr ()),
     client_initialize = (\<lambda>tr h. Inr ()),
     fs_existsSync = (\<lambda>tr p. p \<noteq> ''/app/uploads/missing.png''),
     fs_statSync_size = (\<lambda>tr p. Inr (if p = ''/app/uploads/big.mp4'' then 20971520 else 2048)),
     fs_readFileSync = (\<lambda>tr p. Inr ''iVBORw0KGgo=''),
     fs_rmSync = (\<lambda>tr p. Inr ()),
     mime_lookup = mime_by_name,
     path_join_cwd = (\<lambda>p. ''/app/'' @ p),
     path_basename = basename_of \<rparr>"

text \<open>Only 966501111111 has a WhatsApp account.\<close>

definition env_one_registered :: env where
  "env_one_registered =
     env_ok\<lparr>client_isRegisteredUser := (\<lambda>tr chatId. Inr (chatId = ''966501111111@c.us''))\<rparr>"

text \<open>A client that is not ready yet rejects every call.\<close>

definition env_not_ready :: env where
  "env_not_ready =
     env_ok\<lparr>client_isRegisteredUser := (\<lambda>tr chatId. Inl (External ''client is not ready'')),
            client_sendMessage := (\<lambda>tr chatId content. Inl (External ''client is not ready''))\<rparr>"

text \<open>The shutdown of the client throws, and so does the removal of the first folder.\<close>

definition env_destroy_fails :: env where
  "env_destroy_fails =
     env_ok\<lparr>client_destroy := (\<lambda>tr h. Inl (External ''Target closed'')),
            fs_rmSync := (\<lambda>tr p. if p = ''/app/uploads'' then Inl (External ''EBUSY'') else Inr ())\<rparr>"

text \<open>The module variables as lines 110-112 initialise them, and three later states.\<close>

definition s_start :: session where
  "s_start = \<lparr>connectionStatus = ''disconnected'', client = None, qrCodeData = None\<rparr>"

definition s_initializing :: session where
  "s_initializing = fst (initializeWhatsApp env_not_ready 1 s_start [])"

definition s_connected :: session where
  "s_connected = \<lparr>connectionStatus = ''connected'', client = Some 1, qrCodeData = None\<rparr>"

definition s_waiting :: session where
  "s_waiting = \<lparr>connectionStatus = ''waiting-for-qr'', client = Some 1, qrCodeData = Some ''2@qr''\<rparr>"

section \<open>Properties of formatPhoneNumber\<close>

lemma startsWith_prefix: "startsWith s p = prefix p s"
proof
  assume "startsWith s p"
  then have "s = p @ drop (length p) s"
    unfolding startsWith_def by (metis append_take_drop_id)
  then show "prefix p s" unfolding prefix_def by blast
next
  assume "prefix p s"
  then show "startsWith s p" unfolding startsWith_def prefix_def by auto
qed

lemma drop_leading_zero_eq:
  "drop_leading_zero ds = (if startsWith ds ''0'' then drop 1 ds else ds)"
  by (cases ds) (simp_all add: startsWith_def)

text \<open>
  Claim C7. On a string, formatPhoneNumber is the normalizer of the specification: every
  character that is not a digit is removed; under the hint SA one leading zero is dropped
  and 966 is put in front unless the digits then start with 966; under the hint 20 the
  code 20 is put in front unless the digits start with it; under any other hint the digits
  are returned as they are. In particular 0501234567 and 966501234567 both give
  966501234567 under SA.
\<close>

theorem formatPhoneNumber_normalize:
  "formatPhoneNumber (JStr rawNumber) (JStr countryHint) = Inr (normalize_spec rawNumber countryHint)
   \<and> formatPhoneNumber (JStr ''0501234567'') (JStr ''SA'') = Inr ''966501234567''
   \<and> formatPhoneNumber (JStr ''966501234567'') (JStr ''SA'') = Inr ''966501234567''"
proof (intro conjI)
  show "formatPhoneNumber (JStr rawNumber) (JStr countryHint)
          = Inr (normalize_spec rawNumber countryHint)"
    unfolding formatPhoneNumber_def normalize_spec_def toString_def Let_def
      prepend_unless_present_def drop_leading_zero_eq startsWith_prefix [symmetric]
    by simp
  show "formatPhoneNumber (JStr ''0501234567'') (JStr ''SA'') = Inr ''966501234567''"
    by (simp add: formatPhoneNumber_def toString_def isDigit_def startsWith_def)
  show "formatPhoneNumber (JStr ''966501234567'') (JStr ''SA'') = Inr ''966501234567''"
    by (simp add: formatPhoneNumber_def toString_def isDigit_def startsWith_def)
qed

section \<open>Evaluation rules\<close>

lemma andThen_Inl [simp]: "andThen (Inl e, tr) k = (Inl e, tr)"
  by (simp add: andThen_def)

lemma andThen_Inr [simp]: "andThen (Inr x, tr) k = k x tr"
  by (simp add: andThen_def)

lemmas handler_defs = send_single_media_def single_try_def single_catch_def check_registered_def
  resolveMedia_def join_cwd_def send_media_def formatPhoneNumber_def toString_def isDigit_def
  startsWith_def send_bulk_messages_def bulk_try_def bulk_media_item_def bulk_media_try_def
  send_text_def truthy_def or_number_def Let_def

lemmas example_defs = env_ok_def env_one_registered_def env_not_ready_def env_destroy_fails_def
  s_start_def s_initializing_def s_connected_def s_waiting_def mime_by_name_def basename_of_def

section \<open>The result of a batch\<close>

text \<open>
  In POST /send-bulk-messages every recipient adds exactly one entry to the results, to
  \<open>success\<close> or to \<open>failed\<close>, whatever the collaborators answer.
\<close>

lemma bulk_loop_one_entry_each:
  "length (success (fst (bulk_loop env message mediaFiles country ns res tr)))
     + length (failed (fst (bulk_loop env message mediaFiles country ns res tr)))
   = length (success res) + length (failed res) + length ns"
proof (induction ns arbitrary: res tr)
  case Nil
  show ?case by simp
next
  case (Cons number rest)
  show ?case
    by (cases "bulk_try env number message mediaFiles country tr")
       (auto simp: Cons.IH split: sum.splits)
qed

text \<open>
  The entry of a recipient is its formatted number in \<open>success\<close>, or the pair of
  \<open>formattedNumber || number\<close> and the reason in \<open>failed\<close>, appended after the entries of
  the recipients before it.
\<close>

lemma bulk_loop_step:
  "(\<exists>f tr1. formatPhoneNumber number country = Inr f
       \<and> bulk_loop env message mediaFiles country (number # rest) res tr
         = bulk_loop env message mediaFiles country rest
             (res\<lparr>success := success res @ [f]\<rparr>) tr1)
   \<or> (\<exists>e tr1. bulk_loop env message mediaFiles country (number # rest) res tr
         = bulk_loop env message mediaFiles country rest
             (res\<lparr>failed := failed res
                @ [(or_number (case formatPhoneNumber number country of
                                 Inl x \<Rightarrow> None | Inr f \<Rightarrow> Some f) number, e)]\<rparr>) tr1)"
proof (cases "formatPhoneNumber number country")
  case (Inl x)
  then have "bulk_loop env message mediaFiles country (number # rest) res tr
         = bulk_loop env message mediaFiles country rest
             (res\<lparr>failed := failed res
                @ [(or_number (case formatPhoneNumber number country of
                                 Inl x \<Rightarrow> None | Inr f \<Rightarrow> Some f) number, x)]\<rparr>) tr"
    by (simp add: bulk_try_def)
  then show ?thesis by blast
next
  case (Inr f)
  obtain r tr1 where t: "bulk_try env number message mediaFiles country tr = (r, tr1)"
    by (cases "bulk_try env number message mediaFiles country tr")
  show ?thesis
  proof (cases r)
    case (Inl fe)
    with t Inr have fe: "fst fe = Some f"
      by (auto simp: bulk_try_def Let_def split: prod.splits sum.splits)
    from t Inl have "bulk_loop env message mediaFiles country (number # rest) res tr
         = bulk_loop env message mediaFiles country rest
             (res\<lparr>failed := failed res @ [(or_number (fst fe) number, snd fe)]\<rparr>) tr1"
      by (simp add: split_def)
    with fe Inr show ?thesis by auto
  next
    case (Inr g)
    with t \<open>formatPhoneNumber number country = Inr f\<close> have "g = f"
      by (auto simp: bulk_try_def Let_def split: prod.splits sum.splits)
    with t Inr \<open>formatPhoneNumber number country = Inr f\<close> show ?thesis by auto
  qed
qed

text \<open>
  In POST /send-single-media the loop ends at the first recipient whose \<open>try\<close> block
  throws, with the ReferenceError of the \<open>catch\<close> block; so a loop that runs to its end
  has pushed every recipient to \<open>success\<close> and nothing to \<open>failed\<close>.
\<close>

lemma single_loop_first_throw:
  "single_try env number mediaPath captionText country tr = (Inl error, tr1) \<Longrightarrow>
   single_loop env mediaPath captionText country (number # rest) res tr
     = (Inl (NotDefined ''formattedNumber''), tr1)"
  by (simp add: single_catch_def)

lemma single_loop_completes:
  "single_loop env mediaPath captionText country ns res tr = (Inr res', tr') \<Longrightarrow>
   failed res' = failed res \<and> length (success res') = length (success res) + length ns"
proof (induction ns arbitrary: res tr)
  case Nil
  then show ?case by simp
next
  case (Cons number rest)
  obtain r tr1 where t: "single_try env number mediaPath captionText country tr = (r, tr1)"
    by (cases "single_try env number mediaPath captionText country tr")
  show ?case
  proof (cases r)
    case (Inl error)
    with t Cons.prems show ?thesis by (simp add: single_catch_def)
  next
    case (Inr formattedNumber)
    with t Cons.prems
    have "single_loop env mediaPath captionText country rest
            (res\<lparr>success := success res @ [formattedNumber]\<rparr>) tr1 = (Inr res', tr')"
      by simp
    from Cons.IH [OF this] show ?thesis by simp
  qed
qed

text \<open>
  With one registered and one unregistered recipient, POST /send-bulk-messages answers with
  the registered number in \<open>success\<close> and the other in \<open>failed\<close>.
\<close>

lemma bulk_registered_and_unregistered:
  "send_bulk_messages env_one_registered s_connected
     (Some [JStr ''0502222222'', JStr ''0501111111'']) JNull None (JStr ''SA'') []
   = (Status200 \<lparr>success = [''966501111111''],
                 failed = [(JStr ''966502222222'', NotRegistered)]\<rparr>,
      [EvIsRegisteredUser ''966502222222@c.us'', EvIsRegisteredUser ''966501111111@c.us''])"
  by (simp add: handler_defs example_defs)

text \<open>
  Claim C1, for POST /send-single-media: an input recipient should appear in exactly one
  of the two sequences of the result. The handler does not do this. With a connected
  session and the single recipient 0502222222, which has no WhatsApp account, the
  registration check throws, the catch block of lines 328-333 throws a ReferenceError on
  \<open>formattedNumber\<close>, and the answer is status 500 with no results object: the recipient
  is in neither sequence. POST /send-bulk-messages declares the variable outside the
  \<open>try\<close> (line 359) and records the recipient, see \<open>bulk_loop_one_entry_each\<close>.
\<close>

theorem single_media_unregistered_recipient_lost:
  "send_single_media env_one_registered s_connected (Some [JStr ''0502222222''])
     (JStr ''uploads/photo.png'') (JStr ''hello'') (JStr ''SA'') []
   = (Status500 (RequestFailed (NotDefined ''formattedNumber'')),
      [EvIsRegisteredUser ''966502222222@c.us''])"
  by (simp add: handler_defs example_defs)

text \<open>
  Claim C2, for POST /send-single-media: an error of one recipient should be recorded in
  \<open>failed\<close> and the loop should go on. Here both recipients are registered and the media
  file does not exist: the error of the first recipient ends the request with status 500,
  and the trace shows that the second recipient is never looked at.
\<close>

theorem single_media_failure_aborts_batch:
  "send_single_media env_ok s_connected
     (Some [JStr ''+966 50 111 1111'', JStr ''+966 50 222 2222''])
     (JStr ''uploads/missing.png'') JNull (JStr ''SA'') []
   = (Status500 (RequestFailed (NotDefined ''formattedNumber'')),
      [EvIsRegisteredUser ''966501111111@c.us'', EvExistsSync ''/app/uploads/missing.png''])"
  by (simp add: handler_defs example_defs)

text \<open>
  Claim C4, for POST /send-single-media with one registered and one unregistered recipient
  and a media file that resolves: the answer should be success = [registered] and
  failed = [(unregistered, not registered)] in either order of the input. In both orders
  the handler answers status 500 instead; when the registered recipient comes first, the
  media has already been sent to it.
\<close>

theorem single_media_registered_and_unregistered:
  "send_single_media env_one_registered s_connected
     (Some [JStr ''0501111111'', JStr ''0502222222''])
     (JStr ''uploads/photo.png'') (JStr ''hello'') (JStr ''SA'') []
   = (Status500 (RequestFailed (NotDefined ''formattedNumber'')),
      [EvIsRegisteredUser ''966501111111@c.us'',
       EvExistsSync ''/app/uploads/photo.png'',
       EvStatSync ''/app/uploads/photo.png'',
       EvReadFileSync ''/app/uploads/photo.png'',
       EvSendMessage ''966501111111@c.us''
         (Media \<lparr>mimetype = ''image/png'', data = ''iVBORw0KGgo='', filename = ''photo.png''\<rparr>
                \<lparr>sendMediaAsDocument = False, caption = JStr ''hello''\<rparr>),
       EvIsRegisteredUser ''966502222222@c.us''])
   \<and> send_single_media env_one_registered s_connected
     (Some [JStr ''0502222222'', JStr ''0501111111''])
     (JStr ''uploads/photo.png'') (JStr ''hello'') (JStr ''SA'') []
   = (Status500 (RequestFailed (NotDefined ''formattedNumber'')),
      [EvIsRegisteredUser ''966502222222@c.us''])"
  by (simp add: handler_defs example_defs)

section \<open>Teardown\<close>

text \<open>
  The folder loop does not depend on what \<open>rmSync\<close> answers: after a folder, whether
  its removal threw or not, the loop goes on with the folders that remain.
\<close>

lemma clear_loop_step:
  "clear_loop env (folder # rest) tr
     = clear_loop env rest
         (tr @ (if fs_existsSync env tr folder then [EvExistsSync folder, EvRmSync folder]
                else [EvExistsSync folder]))"
  by (simp split: sum.splits)

text \<open>What destroyClient leaves behind, for every session and every collaborator.\<close>

lemma destroyClient_state:
  "connectionStatus (fst (destroyClient env s tr)) = ''disconnected''
   \<and> qrCodeData (fst (destroyClient env s tr)) = None
   \<and> client (fst (destroyClient env s tr))
       = (case client s of
            None \<Rightarrow> None
          | Some h \<Rightarrow> (case client_destroy env tr h of Inr u \<Rightarrow> None | Inl error \<Rightarrow> Some h))"
  by (simp add: destroyClient_def Let_def split: option.splits sum.splits)

text \<open>
  Claim C6: destroy() should clear the client handle even when the shutdown call of the
  client throws. Here the session waits for a QR scan, \<open>client.destroy()\<close> throws and so
  does the removal of the first folder. The status ends as \<open>disconnected\<close>, the QR
  payload is cleared, and all three folders are tried although the first removal fails;
  but the handle is still set: line 139 is skipped by the throw.
\<close>

theorem destroyClient_keeps_handle_when_destroy_throws:
  "destroyClient env_destroy_fails s_waiting []
   = (\<lparr>connectionStatus = ''disconnected'', client = Some 1, qrCodeData = None\<rparr>,
      [EvDestroy 1,
       EvExistsSync ''/app/uploads'', EvRmSync ''/app/uploads'',
       EvExistsSync ''/app/.wwebjs_auth'', EvRmSync ''/app/.wwebjs_auth'',
       EvExistsSync ''/app/.wwebjs_cache'', EvRmSync ''/app/.wwebjs_cache''])"
  by (simp add: destroyClient_def clearWhatsAppFolders_def foldersToDelete_def example_defs)

section \<open>Media resolution\<close>

text \<open>
  Claim C8. The checks of the media resolution come in a fixed order, and the trace shows
  what was touched before the failure. A path that does not exist fails with
  MediaNotFound after the existence test alone. An existing file whose MIME type cannot
  be determined fails with UnsupportedType, still with the existence test alone: its size
  is not read. An existing file with a MIME type fails with TooLarge exactly when its size
  is greater than 16 * 1024 * 1024 bytes, after the existence test and the stat, before
  the file is read and before any call on the client; at or below the limit the file is
  read.
\<close>

theorem resolveMedia_check_order:
  "(\<not> fs_existsSync env tr (path_join_cwd env p) \<longrightarrow>
      resolveMedia env (JStr p) tr
        = (Inl MediaNotFound, tr @ [EvExistsSync (path_join_cwd env p)]))
   \<and> (fs_existsSync env tr (path_join_cwd env p)
        \<and> (mime_lookup env (path_join_cwd env p) = None
             \<or> mime_lookup env (path_join_cwd env p) = Some []) \<longrightarrow>
      resolveMedia env (JStr p) tr
        = (Inl UnsupportedType, tr @ [EvExistsSync (path_join_cwd env p)]))
   \<and> (fs_existsSync env tr (path_join_cwd env p)
        \<and> mime_lookup env (path_join_cwd env p) = Some mimeType \<and> mimeType \<noteq> []
        \<and> fs_statSync_size env (tr @ [EvExistsSync (path_join_cwd env p)]) (path_join_cwd env p)
             = Inr fileSize \<longrightarrow>
      (if fileSize > 16 * 1024 * 1024
       then resolveMedia env (JStr p) tr
              = (Inl TooLarge,
                 tr @ [EvExistsSync (path_join_cwd env p), EvStatSync (path_join_cwd env p)])
       else snd (resolveMedia env (JStr p) tr)
              = tr @ [EvExistsSync (path_join_cwd env p), EvStatSync (path_join_cwd env p),
                      EvReadFileSync (path_join_cwd env p)]))"
proof (intro conjI impI)
  assume "\<not> fs_existsSync env tr (path_join_cwd env p)"
  then show "resolveMedia env (JStr p) tr
        = (Inl MediaNotFound, tr @ [EvExistsSync (path_join_cwd env p)])"
    by (simp add: resolveMedia_def join_cwd_def)
next
  assume "fs_existsSync env tr (path_join_cwd env p)
        \<and> (mime_lookup env (path_join_cwd env p) = None
             \<or> mime_lookup env (path_join_cwd env p) = Some [])"
  then show "resolveMedia env (JStr p) tr
        = (Inl UnsupportedType, tr @ [EvExistsSync (path_join_cwd env p)])"
    by (auto simp: resolveMedia_def join_cwd_def)
next
  assume a: "fs_existsSync env tr (path_join_cwd env p)
        \<and> mime_lookup env (path_join_cwd env p) = Some mimeType \<and> mimeType \<noteq> []
        \<and> fs_statSync_size env (tr @ [EvExistsSync (path_join_cwd env p)]) (path_join_cwd env p)
             = Inr fileSize"
  show "if fileSize > 16 * 1024 * 1024
       then resolveMedia env (JStr p) tr
              = (Inl TooLarge,
                 tr @ [EvExistsSync (path_join_cwd env p), EvStatSync (path_join_cwd env p)])
       else snd (resolveMedia env (JStr p) tr)
              = tr @ [EvExistsSync (path_join_cwd env p), EvStatSync (path_join_cwd env p),
                      EvReadFileSync (path_join_cwd env p)]"
  proof (cases "fileSize > 16 * 1024 * 1024")
    case True
    with a show ?thesis by (simp add: resolveMedia_def join_cwd_def)
  next
    case False
    with a show ?thesis
      by (cases "fs_readFileSync env
                   (tr @ [EvExistsSync (path_join_cwd env p), EvStatSync (path_join_cwd env p)])
                   (path_join_cwd env p)")
         (simp_all add: resolveMedia_def join_cwd_def)
  qed
qed

text \<open>
  The four cases on the example server: the missing picture, a file of unknown type, the
  video of 20 MiB, and the short video.
\<close>

theorem resolveMedia_check_order_witness:
  "resolveMedia env_ok (JStr ''uploads/missing.png'') []
     = (Inl MediaNotFound, [EvExistsSync ''/app/uploads/missing.png''])
   \<and> resolveMedia env_ok (JStr ''uploads/notes.xyz'') []
     = (Inl UnsupportedType, [EvExistsSync ''/app/uploads/notes.xyz''])
   \<and> resolveMedia env_ok (JStr ''uploads/big.mp4'') []
     = (Inl TooLarge, [EvExistsSync ''/app/uploads/big.mp4'', EvStatSync ''/app/uploads/big.mp4''])
   \<and> snd (resolveMedia env_ok (JStr ''uploads/clip.mp4'') [])
     = [EvExistsSync ''/app/uploads/clip.mp4'', EvStatSync ''/app/uploads/clip.mp4'',
        EvReadFileSync ''/app/uploads/clip.mp4'']"
  using resolveMedia_check_order [of env_ok "[]" "''uploads/missing.png''"]
        resolveMedia_check_order [of env_ok "[]" "''uploads/notes.xyz''"]
        resolveMedia_check_order [of env_ok "[]" "''uploads/big.mp4''" "''video/mp4''" 20971520]
        resolveMedia_check_order [of env_ok "[]" "''uploads/clip.mp4''" "''video/mp4''" 2048]
  by (simp add: example_defs)

section \<open>One recipient of POST /send-bulk-messages\<close>

text \<open>
  Claim C10. A recipient whose number formats, who is registered, for whom no text is to
  be sent (\<open>message\<close> is missing or empty) and for whom the list of media files is missing
  or empty, is pushed to \<open>success\<close>, and the only call made for it is the registration
  check; the loop goes on with the other recipients.
\<close>

theorem bulk_registered_nothing_to_send:
  assumes "formatPhoneNumber number country = Inr formattedNumber"
      and "client_isRegisteredUser env tr (formattedNumber @ ''@c.us'') = Inr True"
      and "\<not> truthy message"
      and "mediaFiles = None \<or> mediaFiles = Some []"
  shows "bulk_loop env message mediaFiles country (number # rest) res tr
       = bulk_loop env message mediaFiles country rest
           (res\<lparr>success := success res @ [formattedNumber]\<rparr>)
           (tr @ [EvIsRegisteredUser (formattedNumber @ ''@c.us'')])"
proof -
  have no_text: "send_text env chatId message tr' = (Inr (), tr')" for chatId tr'
    using assms(3) by (cases message) (simp_all add: send_text_def)
  have "bulk_try env number message mediaFiles country tr
          = (Inr formattedNumber, tr @ [EvIsRegisteredUser (formattedNumber @ ''@c.us'')])"
    using assms(1,2,4) by (auto simp: bulk_try_def check_registered_def no_text)
  then show ?thesis by simp
qed

text \<open>Once with neither field in the request, once with an empty text and an empty list.\<close>

theorem bulk_registered_nothing_to_send_witness:
  "bulk_loop env_ok JNull None (JStr ''SA'') [JStr ''0501111111''] \<lparr>success = [], failed = []\<rparr> []
     = (\<lparr>success = [''966501111111''], failed = []\<rparr>, [EvIsRegisteredUser ''966501111111@c.us''])
   \<and> bulk_loop env_ok (JStr []) (Some []) (JStr ''20'') [JStr ''01001234567'']
        \<lparr>success = [], failed = []\<rparr> []
     = (\<lparr>success = [''2001001234567''], failed = []\<rparr>, [EvIsRegisteredUser ''2001001234567@c.us''])"
proof -
  have f1: "formatPhoneNumber (JStr ''0501111111'') (JStr ''SA'') = Inr ''966501111111''"
    by (simp add: handler_defs)
  have f2: "formatPhoneNumber (JStr ''01001234567'') (JStr ''20'') = Inr ''2001001234567''"
    by (simp add: handler_defs)
  have r: "client_isRegisteredUser env_ok [] chatId = Inr True" for chatId
    by (simp add: env_ok_def)
  have t1: "\<not> truthy JNull" and t2: "\<not> truthy (JStr [])"
    by (simp_all add: truthy_def)
  show ?thesis
    using bulk_registered_nothing_to_send
            [OF f1 r t1, of None "[]" "\<lparr>success = [], failed = []\<rparr>"]
          bulk_registered_nothing_to_send
            [OF f2 r t2, of "Some []" "[]" "\<lparr>success = [], failed = []\<rparr>"]
    by simp
qed




section \<open>The document flag\<close>

lemma appends_only_iff: "appends_only P tr tr' \<longleftrightarrow> (\<exists>evs. tr' = tr @ evs \<and> list_all P evs)"
proof
  assume "appends_only P tr tr'"
  then have t: "take (length tr) tr' = tr" and d: "list_all P (drop (length tr) tr')"
    unfolding appends_only_def by simp_all
  from t have "tr' = tr @ drop (length tr) tr'"
    by (metis append_take_drop_id)
  with d show "\<exists>evs. tr' = tr @ evs \<and> list_all P evs" by blast
next
  assume "\<exists>evs. tr' = tr @ evs \<and> list_all P evs"
  then show "appends_only P tr tr'" unfolding appends_only_def by auto
qed

lemma appends_only_refl: "appends_only P tr tr"
  by (simp add: appends_only_def)

lemma appends_only_trans:
  "appends_only P a b \<Longrightarrow> appends_only P b c \<Longrightarrow> appends_only P a c"
  unfolding appends_only_iff by auto

lemma appends_only_snoc: "P ev \<Longrightarrow> appends_only P tr (tr @ [ev])"
  by (simp add: appends_only_def)

lemma appends_only_step:
  "appends_only P tr tr1 \<Longrightarrow> P ev \<Longrightarrow> appends_only P tr (tr1 @ [ev])"
  by (erule appends_only_trans) (rule appends_only_snoc)

lemma andThen_appends:
  assumes "appends_only P tr (snd r)"
      and "\<And>x. fst r = Inr x \<Longrightarrow> appends_only P (snd r) (snd (k x (snd r)))"
  shows "appends_only P tr (snd (andThen r k))"
proof (cases r)
  case (Pair v t)
  show ?thesis
  proof (cases v)
    case (Inl e)
    with Pair assms(1) show ?thesis by simp
  next
    case (Inr x)
    with Pair assms show ?thesis by (auto intro: appends_only_trans)
  qed
qed

lemma check_registered_appends:
  "appends_only document_flag_rule tr (snd (check_registered env chatId tr))"
  by (simp add: check_registered_def appends_only_snoc)

lemma resolveMedia_appends:
  "appends_only document_flag_rule tr (snd (resolveMedia env mediaPath tr))"
  unfolding resolveMedia_def
  by (intro andThen_appends) (simp_all add: appends_only_def)

lemma resolveMedia_mimetype:
  "resolveMedia env mediaPath tr = (Inr (mimeType, m), tr') \<Longrightarrow> mimetype m = mimeType"
  by (auto simp: resolveMedia_def andThen_def split: sum.splits if_splits option.splits)

lemma send_media_appends:
  "mimetype m = mimeType \<Longrightarrow>
   appends_only document_flag_rule tr (snd (send_media env chatId mimeType m captionText tr))"
  by (simp add: send_media_def Let_def appends_only_def)

lemma send_text_appends:
  "appends_only document_flag_rule tr (snd (send_text env chatId message tr))"
proof (cases message)
  case JNull
  then show ?thesis by (simp add: send_text_def appends_only_refl)
next
  case (JStr str)
  show ?thesis
  proof (cases "truthy message")
    case True
    have "appends_only document_flag_rule tr
            (snd (andThen (client_sendMessage env tr chatId (Text str),
                           tr @ [EvSendMessage chatId (Text str)])
                    (\<lambda>_ tr. (Inr (), tr @ [EvDelay 1000]))))"
      by (rule andThen_appends) (simp_all add: appends_only_def)
    with JStr True show ?thesis by (simp add: send_text_def)
  next
    case False
    with JStr show ?thesis by (simp add: send_text_def appends_only_refl)
  qed
qed

lemma single_try_appends:
  "appends_only document_flag_rule tr
     (snd (single_try env number mediaPath captionText country tr))"
proof (cases "formatPhoneNumber number country")
  case (Inl e)
  then show ?thesis by (simp add: single_try_def appends_only_refl)
next
  case (Inr formattedNumber)
  have "appends_only document_flag_rule tr
     (snd (andThen (check_registered env (formattedNumber @ ''@c.us'') tr) (\<lambda>_ tr.
           andThen (resolveMedia env mediaPath tr) (\<lambda>(mimeType, media) tr.
           andThen (send_media env (formattedNumber @ ''@c.us'') mimeType media captionText tr)
             (\<lambda>_ tr. (Inr formattedNumber, tr))))))"
    apply (rule andThen_appends)
     apply (rule check_registered_appends)
    apply (rule andThen_appends)
     apply (rule resolveMedia_appends)
    apply (clarsimp simp: split_def)
    apply (rule andThen_appends)
     apply (rule send_media_appends)
     apply (metis resolveMedia_mimetype prod.collapse)
    apply (simp add: appends_only_refl)
    done
  with Inr show ?thesis by (simp add: single_try_def Let_def)
qed


lemma single_loop_appends:
  "appends_only document_flag_rule tr
     (snd (single_loop env mediaPath captionText country ns res tr))"
proof (induction ns arbitrary: res tr)
  case Nil
  show ?case by (simp add: appends_only_refl)
next
  case (Cons number rest)
  obtain r tr1 where t: "single_try env number mediaPath captionText country tr = (r, tr1)"
    by (cases "single_try env number mediaPath captionText country tr")
  have step: "appends_only document_flag_rule tr tr1"
    using single_try_appends [of tr env number mediaPath captionText country] t by simp
  show ?case
  proof (cases r)
    case (Inl error)
    with t step show ?thesis by (simp add: single_catch_def)
  next
    case (Inr formattedNumber)
    with t show ?thesis
      using appends_only_trans [OF step Cons.IH] by simp
  qed
qed

lemma bulk_media_try_appends:
  "appends_only document_flag_rule tr (snd (bulk_media_try env chatId item tr))"
  unfolding bulk_media_try_def
  apply (rule andThen_appends)
   apply (rule resolveMedia_appends)
  apply (clarsimp simp: split_def)
  apply (rule appends_only_trans [where b = "snd (resolveMedia env (fst item) tr) @ [EvDelay 1000]"])
   apply (simp add: appends_only_def)
  apply (rule send_media_appends)
  apply (metis resolveMedia_mimetype prod.collapse)
  done

lemma bulk_media_item_appends:
  "appends_only document_flag_rule tr (snd (bulk_media_item env chatId item tr))"
  using bulk_media_try_appends [of tr env chatId item]
  by (auto simp: bulk_media_item_def split: prod.splits sum.splits)

lemma bulk_media_appends:
  "appends_only document_flag_rule tr (snd (bulk_media env chatId items tr))"
proof (induction items arbitrary: tr)
  case Nil
  show ?case by (simp add: appends_only_refl)
next
  case (Cons item items)
  obtain r tr1 where t: "bulk_media_item env chatId item tr = (r, tr1)"
    by (cases "bulk_media_item env chatId item tr")
  have step: "appends_only document_flag_rule tr tr1"
    using bulk_media_item_appends [of tr env chatId item] t by simp
  show ?case
  proof (cases r)
    case (Inl e)
    with t step show ?thesis by simp
  next
    case (Inr u)
    with t show ?thesis
      using appends_only_trans [OF step Cons.IH] by simp
  qed
qed

lemma bulk_try_appends:
  "appends_only document_flag_rule tr
     (snd (bulk_try env number message mediaFiles country tr))"
proof (cases "formatPhoneNumber number country")
  case (Inl e)
  then show ?thesis by (simp add: bulk_try_def appends_only_refl)
next
  case (Inr formattedNumber)
  have "appends_only document_flag_rule tr
     (snd (andThen (check_registered env (formattedNumber @ ''@c.us'') tr) (\<lambda>_ tr.
           andThen (send_text env (formattedNumber @ ''@c.us'') message tr) (\<lambda>_ tr.
             (case mediaFiles of
                None \<Rightarrow> (Inr (), tr)
              | Some items \<Rightarrow>
                  if length items > 0 then bulk_media env (formattedNumber @ ''@c.us'') items tr
                  else (Inr (), tr))))))"
    apply (rule andThen_appends)
     apply (rule check_registered_appends)
    apply (rule andThen_appends)
     apply (rule send_text_appends)
    apply (cases mediaFiles)
     apply (simp_all add: appends_only_refl bulk_media_appends)
    done
  with Inr show ?thesis
    by (auto simp: bulk_try_def Let_def split: prod.splits sum.splits)
qed

lemma bulk_loop_appends:
  "appends_only document_flag_rule tr
     (snd (bulk_loop env message mediaFiles country ns res tr))"
proof (induction ns arbitrary: res tr)
  case Nil
  show ?case by (simp add: appends_only_refl)
next
  case (Cons number rest)
  obtain r tr1 where t: "bulk_try env number message mediaFiles country tr = (r, tr1)"
    by (cases "bulk_try env number message mediaFiles country tr")
  have step: "appends_only document_flag_rule tr tr1"
    using bulk_try_appends [of tr env number message mediaFiles country] t by simp
  show ?case
    using t appends_only_trans [OF step Cons.IH]
    by (cases r) (auto split: prod.splits)
qed

lemma single_trace:
  "snd (send_single_media env s numbers mediaPath captionText country tr)
     = (if client s = None then tr
        else case numbers of
          None \<Rightarrow> tr
        | Some ns \<Rightarrow>
            if length ns = 0 then tr
            else snd (single_loop env mediaPath captionText country ns
                        \<lparr>success = [], failed = []\<rparr> tr))"
  by (simp add: send_single_media_def split: option.splits prod.splits sum.splits)

lemma bulk_trace:
  "snd (send_bulk_messages env s numbers message mediaFiles country tr)
     = (if client s = None then tr
        else case numbers of
          None \<Rightarrow> tr
        | Some ns \<Rightarrow>
            if length ns = 0 then tr
            else snd (bulk_loop env message mediaFiles country ns
                        \<lparr>success = [], failed = []\<rparr> tr))"
  by (simp add: send_bulk_messages_def split: option.splits prod.splits)


text \<open>A picture and a video sent to one recipient: the flag is set for the video only.\<close>

lemma document_flag_example:
  "snd (send_bulk_messages env_ok s_connected (Some [JStr ''0501111111'']) JNull
     (Some [(JStr ''uploads/photo.png'', JStr ''one''), (JStr ''uploads/clip.mp4'', JNull)])
     (JStr ''SA'') [])
   = [EvIsRegisteredUser ''966501111111@c.us'',
       EvExistsSync ''/app/uploads/photo.png'',
       EvStatSync ''/app/uploads/photo.png'',
       EvReadFileSync ''/app/uploads/photo.png'',
       EvDelay 1000,
       EvSendMessage ''966501111111@c.us''
         (Media \<lparr>mimetype = ''image/png'', data = ''iVBORw0KGgo='', filename = ''photo.png''\<rparr>
                \<lparr>sendMediaAsDocument = False, caption = JStr ''one''\<rparr>),
       EvExistsSync ''/app/uploads/clip.mp4'',
       EvStatSync ''/app/uploads/clip.mp4'',
       EvReadFileSync ''/app/uploads/clip.mp4'',
       EvDelay 1000,
       EvSendMessage ''966501111111@c.us''
         (Media \<lparr>mimetype = ''video/mp4'', data = ''iVBORw0KGgo='', filename = ''clip.mp4''\<rparr>
                \<lparr>sendMediaAsDocument = True, caption = JNull\<rparr>)]"
  by (simp add: handler_defs example_defs)

section \<open>The precondition of the send handlers\<close>

text \<open>
  When the first recipient's number formats, the trace of the loop goes on from the
  registration check of that recipient.
\<close>

lemma appends_only_prefix: "appends_only P a b \<Longrightarrow> prefix a b"
  unfolding appends_only_iff prefix_def by blast

lemma single_try_after_check:
  assumes "formatPhoneNumber number country = Inr f"
  shows "appends_only document_flag_rule (tr @ [EvIsRegisteredUser (f @ ''@c.us'')])
           (snd (single_try env number mediaPath captionText country tr))"
proof -
  have "appends_only document_flag_rule (tr @ [EvIsRegisteredUser (f @ ''@c.us'')])
     (snd (andThen (check_registered env (f @ ''@c.us'') tr) (\<lambda>_ tr.
           andThen (resolveMedia env mediaPath tr) (\<lambda>(mimeType, media) tr.
           andThen (send_media env (f @ ''@c.us'') mimeType media captionText tr)
             (\<lambda>_ tr. (Inr f, tr))))))"
    apply (rule andThen_appends)
     apply (simp add: check_registered_def appends_only_refl)
    apply (rule andThen_appends)
     apply (rule resolveMedia_appends)
    apply (clarsimp simp: split_def)
    apply (rule andThen_appends)
     apply (rule send_media_appends)
     apply (metis resolveMedia_mimetype prod.collapse)
    apply (simp add: appends_only_refl)
    done
  with assms show ?thesis by (simp add: single_try_def Let_def)
qed

lemma single_loop_after_check:
  assumes "formatPhoneNumber number country = Inr f"
  shows "appends_only document_flag_rule (tr @ [EvIsRegisteredUser (f @ ''@c.us'')])
           (snd (single_loop env mediaPath captionText country (number # rest) res tr))"
proof -
  obtain r tr1 where t: "single_try env number mediaPath captionText country tr = (r, tr1)"
    by (cases "single_try env number mediaPath captionText country tr")
  have step: "appends_only document_flag_rule (tr @ [EvIsRegisteredUser (f @ ''@c.us'')]) tr1"
    using single_try_after_check [OF assms, of tr env mediaPath captionText] t by simp
  show ?thesis
  proof (cases r)
    case (Inl error)
    with t step show ?thesis by (simp add: single_catch_def)
  next
    case (Inr formattedNumber)
    with t show ?thesis
      using appends_only_trans [OF step single_loop_appends] by simp
  qed
qed

lemma bulk_try_after_check:
  assumes "formatPhoneNumber number country = Inr f"
  shows "appends_only document_flag_rule (tr @ [EvIsRegisteredUser (f @ ''@c.us'')])
           (snd (bulk_try env number message mediaFiles country tr))"
proof -
  have "appends_only document_flag_rule (tr @ [EvIsRegisteredUser (f @ ''@c.us'')])
     (snd (andThen (check_registered env (f @ ''@c.us'') tr) (\<lambda>_ tr.
           andThen (send_text env (f @ ''@c.us'') message tr) (\<lambda>_ tr.
             (case mediaFiles of
                None \<Rightarrow> (Inr (), tr)
              | Some items \<Rightarrow>
                  if length items > 0 then bulk_media env (f @ ''@c.us'') items tr
                  else (Inr (), tr))))))"
    apply (rule andThen_appends)
     apply (simp add: check_registered_def appends_only_refl)
    apply (rule andThen_appends)
     apply (rule send_text_appends)
    apply (cases mediaFiles)
     apply (simp_all add: appends_only_refl bulk_media_appends)
    done
  with assms show ?thesis
    by (auto simp: bulk_try_def Let_def split: prod.splits sum.splits)
qed

lemma bulk_loop_after_check:
  assumes "formatPhoneNumber number country = Inr f"
  shows "appends_only document_flag_rule (tr @ [EvIsRegisteredUser (f @ ''@c.us'')])
           (snd (bulk_loop env message mediaFiles country (number # rest) res tr))"
proof -
  obtain r tr1 where t: "bulk_try env number message mediaFiles country tr = (r, tr1)"
    by (cases "bulk_try env number message mediaFiles country tr")
  have step: "appends_only document_flag_rule (tr @ [EvIsRegisteredUser (f @ ''@c.us'')]) tr1"
    using bulk_try_after_check [OF assms, of tr env message mediaFiles] t by simp
  show ?thesis
    using t appends_only_trans [OF step bulk_loop_appends]
    by (cases r) (auto split: prod.splits)
qed

text \<open>
  Claim C3, as the code has it. Both send handlers require a client handle, not the
  state \<open>connected\<close>. When no client handle exists, the call is answered at once with
  status 400 and nothing is done for any recipient (the trace is unchanged). The
  connection status is not consulted: changing it changes nothing in the answer or in the
  trace. When a handle exists and the list of numbers is not empty, the call is not
  refused: the answer is the one of the loop over the recipients (status 200 with the
  results, or for POST /send-single-media status 500 when the loop throws), and the first
  thing done is to ask the client whether the first recipient is registered.
\<close>

theorem send_requires_client_handle:
  "(client s = None \<longrightarrow>
      send_single_media env s numbers mediaPath captionText country tr
        = (Status400 ClientNotInitialized, tr)
    \<and> send_bulk_messages env s numbers message mediaFiles country tr
        = (Status400 ClientNotInitialized, tr))
   \<and> send_single_media env (s\<lparr>connectionStatus := status\<rparr>) numbers mediaPath captionText country tr
        = send_single_media env s numbers mediaPath captionText country tr
   \<and> send_bulk_messages env (s\<lparr>connectionStatus := status\<rparr>) numbers message mediaFiles country tr
        = send_bulk_messages env s numbers message mediaFiles country tr
   \<and> (client s \<noteq> None \<and> ns \<noteq> [] \<longrightarrow>
        send_single_media env s (Some ns) mediaPath captionText country tr
          = (case single_loop env mediaPath captionText country ns
                    \<lparr>success = [], failed = []\<rparr> tr of
               (Inr res, tr1) \<Rightarrow> (Status200 res, tr1)
             | (Inl error, tr1) \<Rightarrow> (Status500 (RequestFailed error), tr1))
      \<and> send_bulk_messages env s (Some ns) message mediaFiles country tr
          = (case bulk_loop env message mediaFiles country ns
                    \<lparr>success = [], failed = []\<rparr> tr of
               (res, tr1) \<Rightarrow> (Status200 res, tr1)))
   \<and> (client s \<noteq> None \<and> formatPhoneNumber number country = Inr f \<longrightarrow>
        prefix (tr @ [EvIsRegisteredUser (f @ ''@c.us'')])
          (snd (send_single_media env s (Some (number # rest)) mediaPath captionText country tr))
      \<and> prefix (tr @ [EvIsRegisteredUser (f @ ''@c.us'')])
          (snd (send_bulk_messages env s (Some (number # rest)) message mediaFiles country tr)))"
proof (intro conjI impI)
  assume "client s = None"
  then show "send_single_media env s numbers mediaPath captionText country tr
        = (Status400 ClientNotInitialized, tr)"
    by (simp add: send_single_media_def)
next
  assume "client s = None"
  then show "send_bulk_messages env s numbers message mediaFiles country tr
        = (Status400 ClientNotInitialized, tr)"
    by (simp add: send_bulk_messages_def)
next
  show "send_single_media env (s\<lparr>connectionStatus := status\<rparr>) numbers mediaPath captionText country tr
        = send_single_media env s numbers mediaPath captionText country tr"
    by (simp add: send_single_media_def)
next
  show "send_bulk_messages env (s\<lparr>connectionStatus := status\<rparr>) numbers message mediaFiles country tr
        = send_bulk_messages env s numbers message mediaFiles country tr"
    by (simp add: send_bulk_messages_def)
next
  assume "client s \<noteq> None \<and> ns \<noteq> []"
  then show "send_single_media env s (Some ns) mediaPath captionText country tr
          = (case single_loop env mediaPath captionText country ns
                    \<lparr>success = [], failed = []\<rparr> tr of
               (Inr res, tr1) \<Rightarrow> (Status200 res, tr1)
             | (Inl error, tr1) \<Rightarrow> (Status500 (RequestFailed error), tr1))"
    by (auto simp: send_single_media_def)
next
  assume "client s \<noteq> None \<and> ns \<noteq> []"
  then show "send_bulk_messages env s (Some ns) message mediaFiles country tr
          = (case bulk_loop env message mediaFiles country ns
                    \<lparr>success = [], failed = []\<rparr> tr of
               (res, tr1) \<Rightarrow> (Status200 res, tr1))"
    by (auto simp: send_bulk_messages_def)
next
  assume a: "client s \<noteq> None \<and> formatPhoneNumber number country = Inr f"
  then have eq: "snd (send_single_media env s (Some (number # rest)) mediaPath captionText country tr)
       = snd (single_loop env mediaPath captionText country (number # rest)
                \<lparr>success = [], failed = []\<rparr> tr)"
    by (auto simp: single_trace simp del: single_loop.simps)
  from a have f: "formatPhoneNumber number country = Inr f" by simp
  show "prefix (tr @ [EvIsRegisteredUser (f @ ''@c.us'')])
          (snd (send_single_media env s (Some (number # rest)) mediaPath captionText country tr))"
    unfolding eq by (rule appends_only_prefix [OF single_loop_after_check [OF f]])
next
  assume a: "client s \<noteq> None \<and> formatPhoneNumber number country = Inr f"
  then have eq: "snd (send_bulk_messages env s (Some (number # rest)) message mediaFiles country tr)
       = snd (bulk_loop env message mediaFiles country (number # rest)
                \<lparr>success = [], failed = []\<rparr> tr)"
    by (auto simp: bulk_trace simp del: bulk_loop.simps)
  from a have f: "formatPhoneNumber number country = Inr f" by simp
  show "prefix (tr @ [EvIsRegisteredUser (f @ ''@c.us'')])
          (snd (send_bulk_messages env s (Some (number # rest)) message mediaFiles country tr))"
    unfolding eq by (rule appends_only_prefix [OF bulk_loop_after_check [OF f]])
qed

text \<open>
  The state of lines 110-112, before any client exists, for the first part; a session that
  waits for the QR scan, with a client that answers, for the other parts.
\<close>

theorem send_requires_client_handle_witness:
  "client s_start = None
   \<and> send_single_media env_ok s_start (Some [JStr ''0501111111'']) (JStr ''uploads/photo.png'')
        (JStr ''hello'') (JStr ''SA'') [] = (Status400 ClientNotInitialized, [])
   \<and> send_bulk_messages env_ok s_start (Some [JStr ''0501111111'']) (JStr ''hello'') None
        (JStr ''SA'') [] = (Status400 ClientNotInitialized, [])
   \<and> client s_waiting \<noteq> None
   \<and> connectionStatus s_waiting \<noteq> ''connected''
   \<and> formatPhoneNumber (JStr ''0501111111'') (JStr ''SA'') = Inr ''966501111111''
   \<and> send_single_media env_ok s_waiting (Some [JStr ''0501111111'']) (JStr ''uploads/photo.png'')
        (JStr ''hello'') (JStr ''SA'') []
      = (Status200 \<lparr>success = [''966501111111''], failed = []\<rparr>,
         [EvIsRegisteredUser ''966501111111@c.us'',
          EvExistsSync ''/app/uploads/photo.png'',
          EvStatSync ''/app/uploads/photo.png'',
          EvReadFileSync ''/app/uploads/photo.png'',
          EvSendMessage ''966501111111@c.us''
            (Media \<lparr>mimetype = ''image/png'', data = ''iVBORw0KGgo='', filename = ''photo.png''\<rparr>
                   \<lparr>sendMediaAsDocument = False, caption = JStr ''hello''\<rparr>)])
   \<and> send_bulk_messages env_ok s_waiting (Some [JStr ''0501111111'']) (JStr ''hello'') None
        (JStr ''SA'') []
      = (Status200 \<lparr>success = [''966501111111''], failed = []\<rparr>,
         [EvIsRegisteredUser ''966501111111@c.us'',
          EvSendMessage ''966501111111@c.us'' (Text ''hello''), EvDelay 1000])
   \<and> prefix [EvIsRegisteredUser ''966501111111@c.us'']
        (snd (send_single_media env_ok s_waiting (Some [JStr ''0501111111''])
                (JStr ''uploads/photo.png'') (JStr ''hello'') (JStr ''SA'') []))
   \<and> prefix [EvIsRegisteredUser ''966501111111@c.us'']
        (snd (send_bulk_messages env_ok s_waiting (Some [JStr ''0501111111'']) (JStr ''hello'')
                None (JStr ''SA'') []))"
proof -
  have f: "formatPhoneNumber (JStr ''0501111111'') (JStr ''SA'') = Inr ''966501111111''"
    by (simp add: handler_defs)
  have n: "client s_start = None" and h: "client s_waiting \<noteq> None"
    and st: "connectionStatus s_waiting \<noteq> ''connected''"
    by (simp_all add: s_start_def s_waiting_def)
  have loop1: "single_loop env_ok (JStr ''uploads/photo.png'') (JStr ''hello'') (JStr ''SA'')
                 [JStr ''0501111111''] \<lparr>success = [], failed = []\<rparr> []
      = (Inr \<lparr>success = [''966501111111''], failed = []\<rparr>,
         [EvIsRegisteredUser ''966501111111@c.us'',
          EvExistsSync ''/app/uploads/photo.png'',
          EvStatSync ''/app/uploads/photo.png'',
          EvReadFileSync ''/app/uploads/photo.png'',
          EvSendMessage ''966501111111@c.us''
            (Media \<lparr>mimetype = ''image/png'', data = ''iVBORw0KGgo='', filename = ''photo.png''\<rparr>
                   \<lparr>sendMediaAsDocument = False, caption = JStr ''hello''\<rparr>)])"
    by (simp add: handler_defs example_defs)
  have loop2: "bulk_loop env_ok (JStr ''hello'') None (JStr ''SA'')
                 [JStr ''0501111111''] \<lparr>success = [], failed = []\<rparr> []
      = (\<lparr>success = [''966501111111''], failed = []\<rparr>,
         [EvIsRegisteredUser ''966501111111@c.us'',
          EvSendMessage ''966501111111@c.us'' (Text ''hello''), EvDelay 1000])"
    by (simp add: handler_defs example_defs)
  show ?thesis
    using send_requires_client_handle [of s_start env_ok "Some [JStr ''0501111111'']" "JStr ''uploads/photo.png''"
              "JStr ''hello''" "JStr ''SA''" "[]" "JStr ''hello''" None]
          send_requires_client_handle [of s_waiting env_ok "Some [JStr ''0501111111'']" "JStr ''uploads/photo.png''"
              "JStr ''hello''" "JStr ''SA''" "[]" "JStr ''hello''" None
              "''connected''" "[JStr ''0501111111'']" "JStr ''0501111111''"
              "''966501111111''" "[]"]
          f n h st loop1 loop2
    by simp
qed

text \<open>
  Claim C3 as stated fails: right after initializeWhatsApp the status is
  \<open>initializing\<close> and a handle exists. A bulk call in that state is not refused: the
  handler asks the client about the recipient, the client rejects, and the answer is
  status 200 with the recipient in \<open>failed\<close>.
\<close>

theorem send_while_initializing_counterexample:
  "connectionStatus s_initializing = ''initializing''
   \<and> send_bulk_messages env_not_ready s_initializing (Some [JStr ''0501111111'']) (JStr ''hi'')
        None (JStr ''SA'') []
     = (Status200 \<lparr>success = [],
                   failed = [(JStr ''966501111111'', External ''client is not ready'')]\<rparr>,
        [EvIsRegisteredUser ''966501111111@c.us''])"
  by (simp add: handler_defs example_defs initializeWhatsApp_def)

end
